theory Spec2Isabelle
  imports Main "HOL-Library.Word" "HOL-Library.Log_Nat"
begin

unbundle bit_operations_syntax

section \<open>Single-precision arithmetic\<close>

text \<open>
  The driver computes in C \<^verbatim>\<open>float\<close>, taken to be IEEE binary32 with every operation
  rounded on its own (round to nearest, ties to even; no fused multiply-add). A finite
  binary32 value is modelled by the rational number it denotes, and every arithmetic
  operation by the exact rational result rounded to the nearest value with a 24-bit
  significand, ties going to the even significand. The exponent range is not modelled:
  the model is exact while magnitudes stay in the normal range (between \<open>2\<^sup>-\<^sup>1\<^sup>2\<^sup>6\<close> and
  \<open>2\<^sup>1\<^sup>2\<^sup>8\<close>) or are zero, which covers everything the decoding functions compute from bytes
  (at most 6553.5, at least 0.1 when not zero). Negative zero is identified with zero; C
  compares them equal.
\<close>

type_synonym f32 = rat

definition pow2 :: "int \<Rightarrow> rat" where
  "pow2 k = (if 0 \<le> k then 2 ^ nat k else 1 / 2 ^ nat (- k))"

text \<open>The binary exponent of a nonzero rational: \<open>pow2 (ilog2 x) \<le> \<bar>x\<bar> < pow2 (ilog2 x + 1)\<close>.\<close>

definition ilog2 :: "rat \<Rightarrow> int" where
  "ilog2 x = (let (a, b) = quotient_of \<bar>x\<bar>; d = bitlen a - bitlen b
              in if pow2 d \<le> \<bar>x\<bar> then d else d - 1)"

definition round_half_even :: "rat \<Rightarrow> int" where
  "round_half_even m = (let f = \<lfloor>m\<rfloor>; d = m - of_int f
     in if d < 1 / 2 then f else if 1 / 2 < d then f + 1 else if even f then f else f + 1)"

definition f32_round :: "rat \<Rightarrow> f32" where
  "f32_round x = (if x = 0 then 0 else
     let q = pow2 (ilog2 x - 23) in of_int (round_half_even (x / q)) * q)"

definition f32_of_int :: "int \<Rightarrow> f32" where
  "f32_of_int n = f32_round (of_int n)"

definition f32_add :: "f32 \<Rightarrow> f32 \<Rightarrow> f32" where
  "f32_add a b = f32_round (a + b)"

definition f32_mul :: "f32 \<Rightarrow> f32 \<Rightarrow> f32" where
  "f32_mul a b = f32_round (a * b)"

definition f32_div :: "f32 \<Rightarrow> f32 \<Rightarrow> f32" where
  "f32_div a b = f32_round (a / b)"

definition f32_neg :: "f32 \<Rightarrow> f32" where
  "f32_neg a = - a"

text \<open>The literal \<^verbatim>\<open>0.1f\<close>: the binary32 value nearest to one tenth.\<close>

definition f32_0_1 :: f32 where
  "f32_0_1 = f32_round (1 / 10)"

text \<open>\<^verbatim>\<open>roundf\<close>: to the nearest integer, halfway cases away from zero.\<close>

definition roundf :: "f32 \<Rightarrow> int" where
  "roundf x = (if 0 \<le> x then \<lfloor>x + 1 / 2\<rfloor> else - \<lfloor>- x + 1 / 2\<rfloor>)"

section \<open>Data model (dht.h)\<close>

text \<open>
  \<^verbatim>\<open>dht_model_t\<close> is a C enumeration whose value is kept in a \<^verbatim>\<open>uint8_t\<close> field of
  \<^verbatim>\<open>dht_t\<close>; the enumerators are the numbers 0 to 3 and the decoders have a
  \<^verbatim>\<open>default\<close> branch for every other number.
\<close>

type_synonym dht_model_t = "8 word"

definition DHT11 :: dht_model_t where "DHT11 = 0"
definition DHT12 :: dht_model_t where "DHT12 = 1"
definition DHT21 :: dht_model_t where "DHT21 = 2"
definition DHT22 :: dht_model_t where "DHT22 = 3"

datatype dht_result_t = DHT_RESULT_OK | DHT_RESULT_TIMEOUT | DHT_RESULT_BAD_CHECKSUM

datatype pio_t = pio0 | pio1

text \<open>\<^verbatim>\<open>PIO pio\<close> is a pointer: \<open>None\<close> is \<^verbatim>\<open>NULL\<close>.\<close>

record dht_t =
  pio :: "pio_t option"
  model :: "8 word"
  pio_program_offset :: "8 word"
  sm :: "8 word"
  dma_chan :: "8 word"
  data_pin :: "8 word"
  data :: "8 word list"
  start_time :: "32 word"

text \<open>
  A failed \<^verbatim>\<open>assert\<close> aborts the program (assertions enabled). The driver's operations
  then end with the error and the hardware as it is at that moment.
\<close>

datatype error = AssertionFailed

section \<open>Hardware abstraction layer\<close>

text \<open>
  Modelled from the spec: the SDK primitives are not part of the repository. Calls without a
  result that the driver reads back are recorded in order; the state-machine enable bits of
  the \<^verbatim>\<open>CTRL\<close> register are kept because the driver tests them. The values that
  successive reads of the DMA busy flag and of the microsecond timer return are given by the
  environment as two sequences; a read beyond the end of its sequence has no value.
\<close>

datatype pio_instr =
    Set_pindirs nat
  | Pull bool bool
  | Mov_y_osr

datatype hw_call =
    Dma_channel_abort "8 word"
  | Dma_channel_unclaim "8 word"
  | Dma_channel_configure "8 word" pio_t "8 word" nat bool
  | Pio_sm_set_consecutive_pindirs pio_t "8 word" "8 word" nat bool
  | Pio_sm_unclaim pio_t "8 word"
  | Pio_remove_program pio_t "8 word"
  | Pio_sm_init pio_t "8 word" "8 word" "8 word"
  | Pio_sm_put_blocking pio_t "8 word" "32 word"
  | Pio_sm_exec pio_t "8 word" pio_instr

record hw_t =
  ctrl :: "pio_t \<Rightarrow> 32 word"
  calls :: "hw_call list"
  dma_busy_reads :: "bool list"
  time_reads :: "32 word list"

text \<open>Modelled from the spec: a call of an SDK primitive with no result, appended to the record of calls.\<close>

definition hw_do :: "hw_call \<Rightarrow> hw_t \<Rightarrow> hw_t" where
  "hw_do c hw = hw\<lparr>calls := calls hw @ [c]\<rparr>"

text \<open>Modelled from the spec: enable/disable of a state machine, one bit of \<^verbatim>\<open>CTRL\<close> per state machine.\<close>

definition pio_sm_set_enabled :: "pio_t \<Rightarrow> 8 word \<Rightarrow> bool \<Rightarrow> hw_t \<Rightarrow> hw_t" where
  "pio_sm_set_enabled p s en hw =
     hw\<lparr>ctrl := (ctrl hw)(p := (ctrl hw p AND NOT (push_bit (unat s) 1)) OR
                               (if en then push_bit (unat s) 1 else 0))\<rparr>"

text \<open>Modelled from the spec: the busy query of a DMA channel, the next value of the environment's sequence.\<close>

definition dma_channel_is_busy :: "8 word \<Rightarrow> hw_t \<Rightarrow> (bool \<times> hw_t) option" where
  "dma_channel_is_busy chan hw =
     (case dma_busy_reads hw of
        [] \<Rightarrow> None
      | b # bs \<Rightarrow> Some (b, hw\<lparr>dma_busy_reads := bs\<rparr>))"

text \<open>Modelled from the spec: the free-running 32-bit microsecond tick counter, the next value of the environment's sequence.\<close>

definition time_us_32 :: "hw_t \<Rightarrow> (32 word \<times> hw_t) option" where
  "time_us_32 hw =
     (case time_reads hw of
        [] \<Rightarrow> None
      | t # ts \<Rightarrow> Some (t, hw\<lparr>time_reads := ts\<rparr>))"

section \<open>The driver (dht.c)\<close>

definition PIO_SM_CLOCK_FREQUENCY :: nat where
  "PIO_SM_CLOCK_FREQUENCY = 1000000"

definition DHT_LONG_PULSE_THRESHOLD_US :: "32 word" where
  "DHT_LONG_PULSE_THRESHOLD_US = 50"

definition DHT_MEASUREMENT_TIMEOUT_US :: "32 word" where
  "DHT_MEASUREMENT_TIMEOUT_US = 6000"

definition get_start_pulse_duration_us :: "dht_model_t \<Rightarrow> 32 word" where
  "get_start_pulse_duration_us m = (if m = DHT21 \<or> m = DHT22 then 1000 else 18000)"

definition get_pio_sm_clocks :: "32 word \<Rightarrow> 32 word" where
  "get_pio_sm_clocks us =
     (let clocks_per_microsecond = f32_div (f32_of_int (int PIO_SM_CLOCK_FREQUENCY)) 1000000
      in word_of_int (roundf (f32_mul (f32_of_int (uint us)) clocks_per_microsecond)))"

definition pio_sm_is_enabled :: "pio_t \<Rightarrow> 8 word \<Rightarrow> hw_t \<Rightarrow> bool" where
  "pio_sm_is_enabled p s hw = (ctrl hw p AND push_bit (unat s) 1 \<noteq> 0)"

text \<open>
  The two loop lengths \<^verbatim>\<open>dht_start_signal_clocks_per_loop\<close> and
  \<^verbatim>\<open>dht_pulse_measurement_clocks_per_loop\<close> come from the generated header of the PIO
  program and are parameters here.
\<close>

record dht_program_t =
  dht_start_signal_clocks_per_loop :: "32 word"
  dht_pulse_measurement_clocks_per_loop :: "32 word"

definition dht_program_init ::
  "dht_program_t \<Rightarrow> pio_t \<Rightarrow> 8 word \<Rightarrow> 8 word \<Rightarrow> dht_model_t \<Rightarrow> 8 word \<Rightarrow> hw_t \<Rightarrow> hw_t" where
  "dht_program_init prog p s offset m pin hw =
     (let hw = hw_do (Pio_sm_init p s offset pin) hw;
          hw = hw_do (Pio_sm_put_blocking p s
                 (get_pio_sm_clocks (get_start_pulse_duration_us m div
                    dht_start_signal_clocks_per_loop prog))) hw;
          hw = hw_do (Pio_sm_put_blocking p s
                 (get_pio_sm_clocks (DHT_LONG_PULSE_THRESHOLD_US div
                    dht_pulse_measurement_clocks_per_loop prog))) hw;
          hw = hw_do (Pio_sm_exec p s (Set_pindirs 1)) hw;
          hw = hw_do (Pio_sm_exec p s (Pull False True)) hw;
          hw = hw_do (Pio_sm_exec p s Mov_y_osr) hw;
          hw = hw_do (Pio_sm_exec p s (Pull False True)) hw
      in pio_sm_set_enabled p s True hw)"

definition configure_dma_channel :: "8 word \<Rightarrow> pio_t \<Rightarrow> 8 word \<Rightarrow> hw_t \<Rightarrow> hw_t" where
  "configure_dma_channel chan p s hw = hw_do (Dma_channel_configure chan p s 5 True) hw"

definition decode_temperature :: "dht_model_t \<Rightarrow> 8 word \<Rightarrow> 8 word \<Rightarrow> error + f32" where
  "decode_temperature m b0 b1 =
     (if m = DHT11 then
        (if b1 AND 0x80 \<noteq> 0 then Inr 0
         else Inr (f32_add (f32_of_int (uint b0)) (f32_mul f32_0_1 (f32_of_int (uint (b1 AND 0x7F))))))
      else if m = DHT12 then
        (let temperature = f32_add (f32_of_int (uint b0)) (f32_mul f32_0_1 (f32_of_int (uint (b1 AND 0x7F))))
         in if b1 AND 0x80 \<noteq> 0 then Inr (f32_neg temperature) else Inr temperature)
      else if m = DHT21 \<or> m = DHT22 then
        (let temperature = f32_mul f32_0_1 (f32_of_int (push_bit 8 (uint (b0 AND 0x7F)) + uint b1))
         in if b0 AND 0x80 \<noteq> 0 then Inr (f32_neg temperature) else Inr temperature)
      else Inl AssertionFailed)"

definition decode_humidity :: "dht_model_t \<Rightarrow> 8 word \<Rightarrow> 8 word \<Rightarrow> error + f32" where
  "decode_humidity m b0 b1 =
     (if m = DHT11 \<or> m = DHT12 then
        Inr (f32_add (f32_of_int (uint b0)) (f32_mul f32_0_1 (f32_of_int (uint b1))))
      else if m = DHT21 \<or> m = DHT22 then
        Inr (f32_mul f32_0_1 (f32_of_int (push_bit 8 (uint b0) + uint b1)))
      else Inl AssertionFailed)"

text \<open>
  The output parameters are pointers into the caller's memory, \<open>None\<close> for \<^verbatim>\<open>NULL\<close>.
\<close>

type_synonym float_ptr = "nat option"
type_synonym float_mem = "nat \<Rightarrow> f32"

definition dht_deinit :: "dht_t \<Rightarrow> hw_t \<Rightarrow> (error \<times> hw_t) + (dht_t \<times> hw_t)" where
  "dht_deinit dht hw =
     (case pio dht of
        None \<Rightarrow> Inl (AssertionFailed, hw)
      | Some p \<Rightarrow>
         (let hw = hw_do (Dma_channel_abort (dma_chan dht)) hw;
              hw = hw_do (Dma_channel_unclaim (dma_chan dht)) hw;
              hw = pio_sm_set_enabled p (sm dht) False hw;
              hw = hw_do (Pio_sm_set_consecutive_pindirs p (sm dht) (data_pin dht) 1 False) hw;
              hw = hw_do (Pio_sm_unclaim p (sm dht)) hw;
              hw = hw_do (Pio_remove_program p (pio_program_offset dht)) hw
          in Inr (dht\<lparr>pio := None\<rparr>, hw)))"

definition dht_start_measurement ::
  "dht_program_t \<Rightarrow> dht_t \<Rightarrow> hw_t \<Rightarrow> ((error \<times> hw_t) + (dht_t \<times> hw_t)) option" where
  "dht_start_measurement prog dht hw =
     (case pio dht of
        None \<Rightarrow> Some (Inl (AssertionFailed, hw))
      | Some p \<Rightarrow>
         if pio_sm_is_enabled p (sm dht) hw then Some (Inl (AssertionFailed, hw))
         else
           (let dht = dht\<lparr>data := replicate 5 0\<rparr>;
                hw = configure_dma_channel (dma_chan dht) p (sm dht) hw;
                hw = dht_program_init prog p (sm dht) (pio_program_offset dht) (model dht) (data_pin dht) hw
            in case time_us_32 hw of
                 None \<Rightarrow> None
               | Some (now, hw) \<Rightarrow> Some (Inr (dht\<lparr>start_time := now\<rparr>, hw))))"

text \<open>
  The busy-wait of \<^verbatim>\<open>dht_finish_measurement_blocking\<close>. The timer is read only when the
  channel is busy (\<^verbatim>\<open>&&\<close>); \<^verbatim>\<open>tight_loop_contents\<close> is an empty function. The result is
  the hardware after the test that ended the loop and the number of times the loop body
  ran; \<open>None\<close> when the environment's sequences end before the loop does.
\<close>

function wait_while_busy :: "8 word \<Rightarrow> 32 word \<Rightarrow> 32 word \<Rightarrow> nat \<Rightarrow> hw_t \<Rightarrow> (nat \<times> hw_t) option" where
  "wait_while_busy chan start timeout n hw =
     (case dma_channel_is_busy chan hw of
        None \<Rightarrow> None
      | Some (busy, hw1) \<Rightarrow>
          if \<not> busy then Some (n, hw1)
          else (case time_us_32 hw1 of
                  None \<Rightarrow> None
                | Some (now, hw2) \<Rightarrow>
                    if now - start < timeout then wait_while_busy chan start timeout (Suc n) hw2
                    else Some (n, hw2)))"
  by pat_completeness auto
termination
  by (relation "measure (\<lambda>(chan, start, timeout, n, hw). length (dma_busy_reads hw))")
     (auto simp: dma_channel_is_busy_def time_us_32_def split: list.splits)

declare wait_while_busy.simps [simp del]

text \<open>
  The DMA channel fills the buffer while the measurement runs; \<open>data dht\<close> is the buffer as
  the function finds it when it reads it, after the wait. The function leaves the instance
  as it is and returns its result with the hardware state and the caller's memory;
  \<open>None\<close> when the environment's sequences end before the function returns.
\<close>

definition dht_finish_measurement_blocking ::
  "dht_t \<Rightarrow> float_ptr \<Rightarrow> float_ptr \<Rightarrow> hw_t \<Rightarrow> float_mem \<Rightarrow>
     ((error \<times> hw_t) + (dht_result_t \<times> hw_t \<times> float_mem)) option" where
  "dht_finish_measurement_blocking dht humidity temperature_c hw mem =
     (case pio dht of
        None \<Rightarrow> Some (Inl (AssertionFailed, hw))
      | Some p \<Rightarrow>
         if \<not> pio_sm_is_enabled p (sm dht) hw then Some (Inl (AssertionFailed, hw))
         else
           (let timeout = get_start_pulse_duration_us (model dht) + DHT_MEASUREMENT_TIMEOUT_US
            in case wait_while_busy (dma_chan dht) (start_time dht) timeout 0 hw of
                 None \<Rightarrow> None
               | Some (n, hw) \<Rightarrow>
                  (let hw = pio_sm_set_enabled p (sm dht) False hw;
                       hw = hw_do (Pio_sm_exec p (sm dht) (Set_pindirs 0)) hw
                   in case dma_channel_is_busy (dma_chan dht) hw of
                        None \<Rightarrow> None
                      | Some (busy, hw) \<Rightarrow>
                          if busy then
                            Some (Inr (DHT_RESULT_TIMEOUT, hw_do (Dma_channel_abort (dma_chan dht)) hw, mem))
                          else
                            (let checksum = (word_of_int (uint (data dht ! 0) + uint (data dht ! 1) +
                                               uint (data dht ! 2) + uint (data dht ! 3)) :: 8 word)
                             in if data dht ! 4 \<noteq> checksum then Some (Inr (DHT_RESULT_BAD_CHECKSUM, hw, mem))
                                else
                                  (case (case humidity of
                                           None \<Rightarrow> Inr mem
                                         | Some a \<Rightarrow>
                                            (case decode_humidity (model dht) (data dht ! 0) (data dht ! 1) of
                                               Inl e \<Rightarrow> Inl e
                                             | Inr h \<Rightarrow> Inr (mem(a := h)))) of
                                     Inl e \<Rightarrow> Some (Inl (e, hw))
                                   | Inr mem \<Rightarrow>
                                      (case (case temperature_c of
                                               None \<Rightarrow> Inr mem
                                             | Some a \<Rightarrow>
                                                (case decode_temperature (model dht) (data dht ! 2) (data dht ! 3) of
                                                   Inl e \<Rightarrow> Inl e
                                                 | Inr t \<Rightarrow> Inr (mem(a := t)))) of
                                         Inl e \<Rightarrow> Some (Inl (e, hw))
                                       | Inr mem \<Rightarrow> Some (Inr (DHT_RESULT_OK, hw, mem))))))))"

section \<open>The example application (dht_example.c)\<close>

definition celsius_to_fahrenheit :: "f32 \<Rightarrow> f32" where
  "celsius_to_fahrenheit temperature =
     f32_add (f32_mul temperature (f32_div 9 (f32_of_int 5))) (f32_of_int 32)"

section \<open>Reading results, sample instances\<close>

text \<open>The result value of a call that returned to its caller.\<close>

definition returned :: "('e + (dht_result_t \<times> 'a)) option \<Rightarrow> dht_result_t option" where
  "returned out = (case out of Some (Inr (r, _)) \<Rightarrow> Some r | _ \<Rightarrow> None)"

text \<open>The hardware at the end of a call, whether it returned or failed an assertion.\<close>

definition hw_after :: "(error \<times> hw_t) + (dht_result_t \<times> hw_t \<times> 'a) \<Rightarrow> hw_t" where
  "hw_after out = (case out of Inl (e, hw) \<Rightarrow> hw | Inr (r, hw, m) \<Rightarrow> hw)"

text \<open>
  An initialised DHT22 on state machine 0 of \<^verbatim>\<open>pio0\<close>, its buffer holding the sample
  bytes of the specification (checksum \<open>0x5A\<close>), and a hardware state in which the state
  machine runs.
\<close>

definition sample_dht :: dht_t where
  "sample_dht = \<lparr>pio = Some pio0, model = DHT22, pio_program_offset = 0, sm = 0, dma_chan = 0,
     data_pin = 15, data = [0x19, 0x00, 0x01, 0x40, 0x5A], start_time = 100\<rparr>"

definition sample_hw :: "bool list \<Rightarrow> 32 word list \<Rightarrow> hw_t" where
  "sample_hw bs ts = \<lparr>ctrl = (\<lambda>p. 1), calls = [], dma_busy_reads = bs, time_reads = ts\<rparr>"

text \<open>The same instance with a measurement started 100 microseconds before the timer wraps.\<close>

definition wrap_dht :: dht_t where
  "wrap_dht = sample_dht\<lparr>start_time := 0xFFFFFF9C\<rparr>"

section \<open>The timeout in the specification's words\<close>

text \<open>
  The specification gives the timeout as the start-pulse duration of the model (1000
  microseconds for DHT21 and DHT22, 18000 otherwise) plus 6000 microseconds, and the
  elapsed time as the difference of the two tick values modulo \<open>2\<^sup>3\<^sup>2\<close>. These two
  definitions follow those words; the theorems compare the driver's loop test with them.
\<close>

definition spec_timeout_us :: "dht_model_t \<Rightarrow> nat" where
  "spec_timeout_us m = (if m = DHT21 \<or> m = DHT22 then 1000 else 18000) + 6000"

definition spec_elapsed_us :: "32 word \<Rightarrow> 32 word \<Rightarrow> nat" where
  "spec_elapsed_us now start = nat ((int (unat now) - int (unat start)) mod 2 ^ 32)"

section \<open>Properties\<close>

subsection \<open>Sample instances\<close>

lemma sample_enabled: "pio_sm_is_enabled pio0 (sm sample_dht) (sample_hw bs ts)"
  by (simp add: sample_hw_def sample_dht_def pio_sm_is_enabled_def)

lemma sample_timeout:
  "get_start_pulse_duration_us (model sample_dht) + DHT_MEASUREMENT_TIMEOUT_US = 7000"
  by (simp add: sample_dht_def get_start_pulse_duration_us_def DHT_MEASUREMENT_TIMEOUT_US_def
      DHT22_def DHT21_def)

lemma sample_wait:
  "wait_while_busy (dma_chan sample_dht) (start_time sample_dht) 7000 0
     (sample_hw [True, False, False] [200]) = Some (1, sample_hw [False] [])"
  by (simp add: wait_while_busy.simps sample_dht_def sample_hw_def dma_channel_is_busy_def
      time_us_32_def)

subsection \<open>Checksum\<close>

lemma finish_dma_idle:
  assumes "pio dht = Some p" "pio_sm_is_enabled p (sm dht) hw"
    and "wait_while_busy (dma_chan dht) (start_time dht)
           (get_start_pulse_duration_us (model dht) + DHT_MEASUREMENT_TIMEOUT_US) 0 hw = Some (n, hw1)"
    and "dma_busy_reads hw1 = False # bs"
  shows "dht_finish_measurement_blocking dht h t hw mem \<noteq> None"
    and "returned (dht_finish_measurement_blocking dht h t hw mem) = Some DHT_RESULT_BAD_CHECKSUM
         \<longleftrightarrow> data dht ! 4 \<noteq> data dht ! 0 + data dht ! 1 + data dht ! 2 + data dht ! 3"
  using assms
  by (auto simp: dht_finish_measurement_blocking_def returned_def Let_def dma_channel_is_busy_def
        pio_sm_set_enabled_def hw_do_def split: option.splits sum.splits list.splits)

lemma unat_sum4:
  "unat (a + b + c + d :: 8 word) = (unat a + unat b + unat c + unat d) mod 256"
  by (simp add: unat_word_ariths mod_simps)

lemma update_breaks_sum:
  fixes xs :: "8 word list"
  assumes "length xs = 5" "i < 5" "v \<noteq> xs ! i"
    and "xs ! 4 = xs ! 0 + xs ! 1 + xs ! 2 + xs ! 3"
  shows "xs[i := v] ! 4 \<noteq> xs[i := v] ! 0 + xs[i := v] ! 1 + xs[i := v] ! 2 + xs[i := v] ! 3"
proof -
  from \<open>i < 5\<close> consider "i = 0" | "i = 1" | "i = 2" | "i = 3" | "i = 4" by linarith
  then show ?thesis
    using assms by cases (auto simp: nth_list_update)
qed

text \<open>
  C1. Let the instance be initialised with a measurement in progress, and let the DMA
  transfer have completed: the busy-wait ends and the busy flag read after it is clear. Then
  \<^verbatim>\<open>dht_finish_measurement_blocking\<close> returns, and it returns \<^verbatim>\<open>DHT_RESULT_BAD_CHECKSUM\<close>
  if and only if byte 4 of the buffer differs from the sum of bytes 0 to 3 modulo 256. The
  buffer \<open>[0x19, 0x00, 0x01, 0x40, 0x5A]\<close> is not rejected, and when the checksum of the
  buffer matches, replacing any one of its five bytes by a different value gives
  \<^verbatim>\<open>DHT_RESULT_BAD_CHECKSUM\<close>.
\<close>

theorem finish_checksum:
  assumes "length (data dht) = 5"
    and "pio dht = Some p" and "pio_sm_is_enabled p (sm dht) hw"
    and "wait_while_busy (dma_chan dht) (start_time dht)
           (get_start_pulse_duration_us (model dht) + DHT_MEASUREMENT_TIMEOUT_US) 0 hw = Some (n, hw1)"
    and "dma_busy_reads hw1 = False # bs"
  shows "dht_finish_measurement_blocking dht h t hw mem \<noteq> None \<and>
     (returned (dht_finish_measurement_blocking dht h t hw mem) = Some DHT_RESULT_BAD_CHECKSUM
        \<longleftrightarrow> unat (data dht ! 4) \<noteq>
              (unat (data dht ! 0) + unat (data dht ! 1) + unat (data dht ! 2) + unat (data dht ! 3)) mod 256) \<and>
     (data dht = [0x19, 0x00, 0x01, 0x40, 0x5A] \<longrightarrow>
        returned (dht_finish_measurement_blocking dht h t hw mem) \<noteq> Some DHT_RESULT_BAD_CHECKSUM) \<and>
     (\<forall>i v. i < 5 \<and> v \<noteq> data dht ! i \<and>
            unat (data dht ! 4) =
              (unat (data dht ! 0) + unat (data dht ! 1) + unat (data dht ! 2) + unat (data dht ! 3)) mod 256 \<longrightarrow>
        returned (dht_finish_measurement_blocking (dht\<lparr>data := (data dht)[i := v]\<rparr>) h t hw mem)
          = Some DHT_RESULT_BAD_CHECKSUM)"
proof -
  let ?ok = "\<lambda>xs :: 8 word list. xs ! 4 = xs ! 0 + xs ! 1 + xs ! 2 + xs ! 3"
  let ?sum = "(unat (data dht ! 0) + unat (data dht ! 1) + unat (data dht ! 2) + unat (data dht ! 3)) mod 256"
  have bad: "returned (dht_finish_measurement_blocking (dht\<lparr>data := xs\<rparr>) h t hw mem)
               = Some DHT_RESULT_BAD_CHECKSUM \<longleftrightarrow> \<not> ?ok xs" for xs
    using finish_dma_idle(2) [of "dht\<lparr>data := xs\<rparr>" p hw n hw1 bs h t mem] assms by simp
  have bad0: "returned (dht_finish_measurement_blocking dht h t hw mem)
               = Some DHT_RESULT_BAD_CHECKSUM \<longleftrightarrow> \<not> ?ok (data dht)"
    using bad [of "data dht"] by simp
  have ok_unat: "?ok (data dht) \<longleftrightarrow> unat (data dht ! 4) = ?sum"
    unfolding unat_sum4 [symmetric] by (simp add: word_unat_eq_iff)
  have 1: "dht_finish_measurement_blocking dht h t hw mem \<noteq> None"
    using finish_dma_idle(1) assms by blast
  have 2: "returned (dht_finish_measurement_blocking dht h t hw mem) = Some DHT_RESULT_BAD_CHECKSUM
        \<longleftrightarrow> unat (data dht ! 4) \<noteq> ?sum"
    unfolding bad0 ok_unat ..
  have 3: "data dht = [0x19, 0x00, 0x01, 0x40, 0x5A] \<longrightarrow>
        returned (dht_finish_measurement_blocking dht h t hw mem) \<noteq> Some DHT_RESULT_BAD_CHECKSUM"
    unfolding bad0 by simp
  have 4: "returned (dht_finish_measurement_blocking (dht\<lparr>data := (data dht)[i := v]\<rparr>) h t hw mem)
          = Some DHT_RESULT_BAD_CHECKSUM"
    if "i < 5" "v \<noteq> data dht ! i" "unat (data dht ! 4) = ?sum" for i v
    unfolding bad using update_breaks_sum [OF assms(1) that(1,2)] that(3) ok_unat by blast
  from 1 2 3 4 show ?thesis by blast
qed

theorem finish_checksum_witness:
  "length (data sample_dht) = 5 \<and> pio sample_dht = Some pio0 \<and>
   pio_sm_is_enabled pio0 (sm sample_dht) (sample_hw [True, False, False] [200]) \<and>
   returned (dht_finish_measurement_blocking sample_dht (Some 0) (Some 1)
      (sample_hw [True, False, False] [200]) (\<lambda>a. 0)) \<noteq> Some DHT_RESULT_BAD_CHECKSUM \<and>
   returned (dht_finish_measurement_blocking (sample_dht\<lparr>data := [0x19, 0x00, 0x01, 0x41, 0x5A]\<rparr>)
      (Some 0) (Some 1) (sample_hw [True, False, False] [200]) (\<lambda>a. 0)) = Some DHT_RESULT_BAD_CHECKSUM"
proof -
  have l: "length (data sample_dht) = 5" and d: "data sample_dht = [0x19, 0x00, 0x01, 0x40, 0x5A]"
    and p: "pio sample_dht = Some pio0"
    by (simp_all add: sample_dht_def)
  have w: "wait_while_busy (dma_chan sample_dht) (start_time sample_dht)
       (get_start_pulse_duration_us (model sample_dht) + DHT_MEASUREMENT_TIMEOUT_US) 0
       (sample_hw [True, False, False] [200]) = Some (1, sample_hw [False] [])"
    unfolding sample_timeout by (rule sample_wait)
  have b: "dma_busy_reads (sample_hw [False] []) = False # []"
    by (simp add: sample_hw_def)
  note c = finish_checksum [OF l p sample_enabled w b, of "Some 0" "Some 1" "\<lambda>a. 0"]
  from c have 3: "returned (dht_finish_measurement_blocking sample_dht (Some 0) (Some 1)
      (sample_hw [True, False, False] [200]) (\<lambda>a. 0)) \<noteq> Some DHT_RESULT_BAD_CHECKSUM"
    using d by blast
  from c have 2: "unat (data sample_dht ! 4) =
      (unat (data sample_dht ! 0) + unat (data sample_dht ! 1) + unat (data sample_dht ! 2) +
       unat (data sample_dht ! 3)) mod 256"
    using 3 by blast
  have "(3::nat) < 5 \<and> (0x41 :: 8 word) \<noteq> data sample_dht ! 3"
    by (simp add: d)
  with c 2 have "returned (dht_finish_measurement_blocking
      (sample_dht\<lparr>data := (data sample_dht)[3 := 0x41]\<rparr>)
      (Some 0) (Some 1) (sample_hw [True, False, False] [200]) (\<lambda>a. 0)) = Some DHT_RESULT_BAD_CHECKSUM"
    by blast
  then have 4: "returned (dht_finish_measurement_blocking (sample_dht\<lparr>data := [0x19, 0x00, 0x01, 0x41, 0x5A]\<rparr>)
      (Some 0) (Some 1) (sample_hw [True, False, False] [200]) (\<lambda>a. 0)) = Some DHT_RESULT_BAD_CHECKSUM"
    by (simp add: d)
  from l p sample_enabled 3 4 show ?thesis by blast
qed

subsection \<open>Output parameters\<close>

text \<open>
  C4. Whenever \<^verbatim>\<open>dht_finish_measurement_blocking\<close> returns \<^verbatim>\<open>DHT_RESULT_TIMEOUT\<close> or
  \<^verbatim>\<open>DHT_RESULT_BAD_CHECKSUM\<close>, the caller's memory is as it was before the call: neither
  output parameter has been written. The memory changes only when the result is
  \<^verbatim>\<open>DHT_RESULT_OK\<close>, and then only at the two output parameters.
\<close>

theorem finish_frame:
  assumes "dht_finish_measurement_blocking dht h t hw mem = Some (Inr (r, hw', mem'))"
  shows "(r = DHT_RESULT_TIMEOUT \<or> r = DHT_RESULT_BAD_CHECKSUM \<longrightarrow> mem' = mem) \<and>
         (mem' \<noteq> mem \<longrightarrow> r = DHT_RESULT_OK) \<and>
         (\<forall>a. h \<noteq> Some a \<and> t \<noteq> Some a \<longrightarrow> mem' a = mem a)"
  using assms
  by (auto simp: dht_finish_measurement_blocking_def Let_def
           split: option.splits sum.splits if_splits prod.splits)

theorem finish_frame_witness:
  "\<exists>hw' mem'. dht_finish_measurement_blocking sample_dht (Some 0) (Some 1)
       (sample_hw [True, True] [7100]) (\<lambda>a. 5) = Some (Inr (DHT_RESULT_TIMEOUT, hw', mem')) \<and>
     mem' = (\<lambda>a. 5)"
proof -
  have "\<exists>hw' mem'. dht_finish_measurement_blocking sample_dht (Some 0) (Some 1)
       (sample_hw [True, True] [7100]) (\<lambda>a. 5) = Some (Inr (DHT_RESULT_TIMEOUT, hw', mem'))"
    by (simp add: dht_finish_measurement_blocking_def Let_def wait_while_busy.simps
        sample_hw_def sample_dht_def dma_channel_is_busy_def time_us_32_def hw_do_def
        pio_sm_set_enabled_def pio_sm_is_enabled_def get_start_pulse_duration_us_def
        DHT_MEASUREMENT_TIMEOUT_US_def DHT22_def DHT21_def)
  then obtain hw' mem' where e: "dht_finish_measurement_blocking sample_dht (Some 0) (Some 1)
       (sample_hw [True, True] [7100]) (\<lambda>a. 5) = Some (Inr (DHT_RESULT_TIMEOUT, hw', mem'))"
    by blast
  from finish_frame [OF e] have "mem' = (\<lambda>a. 5)" by blast
  with e show ?thesis by blast
qed

subsection \<open>Use after deinitialisation\<close>

text \<open>
  C9. \<^verbatim>\<open>dht_deinit\<close> on an initialised instance returns the instance with its PIO
  reference set to \<^verbatim>\<open>NULL\<close> and nothing else changed. On that instance each of
  \<^verbatim>\<open>dht_deinit\<close>, \<^verbatim>\<open>dht_start_measurement\<close> and \<^verbatim>\<open>dht_finish_measurement_blocking\<close>
  fails its first assertion, whatever the hardware state, and the hardware at the failure is
  the hardware the call was given: no register is written, no SDK call is made and no
  reading of the busy flag or the timer is taken.
\<close>

theorem deinit_then_assert:
  assumes "pio dht = Some p"
  shows "\<exists>hw'. dht_deinit dht hw = Inr (dht\<lparr>pio := None\<rparr>, hw') \<and>
           (\<forall>prog hw2 h t mem.
              dht_deinit (dht\<lparr>pio := None\<rparr>) hw2 = Inl (AssertionFailed, hw2) \<and>
              dht_start_measurement prog (dht\<lparr>pio := None\<rparr>) hw2 = Some (Inl (AssertionFailed, hw2)) \<and>
              dht_finish_measurement_blocking (dht\<lparr>pio := None\<rparr>) h t hw2 mem =
                Some (Inl (AssertionFailed, hw2)))"
  using assms
  by (simp add: dht_deinit_def dht_start_measurement_def dht_finish_measurement_blocking_def Let_def)

theorem deinit_then_assert_witness:
  "pio sample_dht = Some pio0 \<and>
   (\<exists>hw'. dht_deinit sample_dht (sample_hw [True] [9]) = Inr (sample_dht\<lparr>pio := None\<rparr>, hw') \<and>
      dht_deinit (sample_dht\<lparr>pio := None\<rparr>) hw' = Inl (AssertionFailed, hw') \<and>
      (\<forall>prog. dht_start_measurement prog (sample_dht\<lparr>pio := None\<rparr>) hw' =
         Some (Inl (AssertionFailed, hw'))) \<and>
      dht_finish_measurement_blocking (sample_dht\<lparr>pio := None\<rparr>) (Some 0) (Some 1) hw' (\<lambda>a. 0) =
         Some (Inl (AssertionFailed, hw')))"
proof -
  have p: "pio sample_dht = Some pio0"
    by (simp add: sample_dht_def)
  from deinit_then_assert [OF p, of "sample_hw [True] [9]"] p show ?thesis
    by blast
qed

subsection \<open>The busy-wait\<close>

lemma timeout_value:
  "unat (get_start_pulse_duration_us m + DHT_MEASUREMENT_TIMEOUT_US) =
     (if m = DHT21 \<or> m = DHT22 then 1000 else 18000) + 6000"
  by (simp add: get_start_pulse_duration_us_def DHT_MEASUREMENT_TIMEOUT_US_def)

lemma elapsed_mod:
  "int (unat (now - start :: 32 word)) = (int (unat now) - int (unat start)) mod 2 ^ 32"
  by (simp add: uint_word_ariths flip: uint_nat)

lemma elapsed_wrap:
  assumes "d < 2 ^ 32"
  shows "unat ((start + word_of_nat d) - start :: 32 word) = d"
  using assms by (simp add: unat_of_nat)

lemma wait_sound:
  "wait_while_busy chan start timeout n0 hw = Some (n, hw1) \<Longrightarrow>
     n0 \<le> n \<and>
     (\<forall>i < n - n0. i < length (dma_busy_reads hw) \<and> i < length (time_reads hw) \<and>
         dma_busy_reads hw ! i \<and> time_reads hw ! i - start < timeout) \<and>
     n - n0 < length (dma_busy_reads hw) \<and>
     (\<not> dma_busy_reads hw ! (n - n0) \<or>
        (n - n0 < length (time_reads hw) \<and> \<not> time_reads hw ! (n - n0) - start < timeout)) \<and>
     dma_busy_reads hw1 = drop (Suc (n - n0)) (dma_busy_reads hw)"
proof (induction chan start timeout n0 hw rule: wait_while_busy.induct)
  case (1 chan start timeout n0 hw)
  show ?case
  proof (cases "dma_busy_reads hw")
    case Nil
    with "1.prems" show ?thesis
      by (simp add: wait_while_busy.simps [of _ _ _ _ hw] dma_channel_is_busy_def)
  next
    case bs: (Cons b bs)
    show ?thesis
    proof (cases b)
      case False
      with bs "1.prems" show ?thesis
        by (auto simp: wait_while_busy.simps [of _ _ _ _ hw] dma_channel_is_busy_def)
    next
      case True
      show ?thesis
      proof (cases "time_reads hw")
        case Nil
        with True bs "1.prems" show ?thesis
          by (simp add: wait_while_busy.simps [of _ _ _ _ hw] dma_channel_is_busy_def time_us_32_def)
      next
        case ts: (Cons t ts)
        let ?hw2 = "hw\<lparr>dma_busy_reads := bs, time_reads := ts\<rparr>"
        show ?thesis
        proof (cases "t - start < timeout")
          case False
          with True bs ts "1.prems" show ?thesis
            by (auto simp: wait_while_busy.simps [of _ _ _ _ hw] dma_channel_is_busy_def time_us_32_def)
        next
          case lt: True
          from True bs ts lt "1.prems"
          have rec: "wait_while_busy chan start timeout (Suc n0) ?hw2 = Some (n, hw1)"
            by (simp add: wait_while_busy.simps [of _ _ _ _ hw] dma_channel_is_busy_def time_us_32_def)
          have ih: "Suc n0 \<le> n \<and>
             (\<forall>i < n - Suc n0. i < length bs \<and> i < length ts \<and> bs ! i \<and> ts ! i - start < timeout) \<and>
             n - Suc n0 < length bs \<and>
             (\<not> bs ! (n - Suc n0) \<or> (n - Suc n0 < length ts \<and> \<not> ts ! (n - Suc n0) - start < timeout)) \<and>
             dma_busy_reads hw1 = drop (Suc (n - Suc n0)) bs"
            using "1.IH" [of "(True, hw\<lparr>dma_busy_reads := bs\<rparr>)" True "hw\<lparr>dma_busy_reads := bs\<rparr>"
                  "(t, ?hw2)" t ?hw2] rec bs ts lt True
            by (simp add: dma_channel_is_busy_def time_us_32_def)
          then have n: "n - n0 = Suc (n - Suc n0)" by linarith
          from ih show ?thesis
            unfolding n bs ts using True lt
            by (auto simp: less_Suc_eq_0_disj)
        qed
      qed
    qed
  qed
qed

lemma wait_result:
  "wait_while_busy chan start timeout n0 hw = Some (n, hw1) \<Longrightarrow>
     hw1 = hw\<lparr>dma_busy_reads := drop (Suc (n - n0)) (dma_busy_reads hw),
              time_reads := drop (if dma_busy_reads hw ! (n - n0) then Suc (n - n0) else n - n0)
                              (time_reads hw)\<rparr>"
proof (induction chan start timeout n0 hw rule: wait_while_busy.induct)
  case (1 chan start timeout n0 hw)
  show ?case
  proof (cases "dma_busy_reads hw")
    case Nil
    with "1.prems" show ?thesis
      by (simp add: wait_while_busy.simps [of _ _ _ _ hw] dma_channel_is_busy_def)
  next
    case bs: (Cons b bs)
    show ?thesis
    proof (cases "b \<and> time_reads hw \<noteq> [] \<and> hd (time_reads hw) - start < timeout")
      case False
      with bs "1.prems" show ?thesis
        by (cases "time_reads hw")
           (auto simp: wait_while_busy.simps [of _ _ _ _ hw] dma_channel_is_busy_def time_us_32_def
                 split: if_splits)
    next
      case True
      then obtain t ts where ts: "time_reads hw = t # ts" and lt: "t - start < timeout" and b: b
        by (cases "time_reads hw") auto
      let ?hw2 = "hw\<lparr>dma_busy_reads := bs, time_reads := ts\<rparr>"
      from b bs ts lt "1.prems"
      have rec: "wait_while_busy chan start timeout (Suc n0) ?hw2 = Some (n, hw1)"
        by (simp add: wait_while_busy.simps [of _ _ _ _ hw] dma_channel_is_busy_def time_us_32_def)
      from wait_sound [OF rec] have "Suc n0 \<le> n" by simp
      then have n: "n - n0 = Suc (n - Suc n0)" by linarith
      have "hw1 = ?hw2\<lparr>dma_busy_reads := drop (Suc (n - Suc n0)) (dma_busy_reads ?hw2),
              time_reads := drop (if dma_busy_reads ?hw2 ! (n - Suc n0) then Suc (n - Suc n0) else n - Suc n0)
                              (time_reads ?hw2)\<rparr>"
        using "1.IH" [of "(True, hw\<lparr>dma_busy_reads := bs\<rparr>)" True "hw\<lparr>dma_busy_reads := bs\<rparr>"
                  "(t, ?hw2)" t ?hw2] rec bs ts lt b
        by (simp add: dma_channel_is_busy_def time_us_32_def)
      then show ?thesis
        unfolding n bs ts by simp
    qed
  qed
qed

lemma wait_total:
  "k < length (dma_busy_reads hw) \<Longrightarrow> k \<le> length (time_reads hw) \<Longrightarrow>
   (\<not> dma_busy_reads hw ! k \<or> (k < length (time_reads hw) \<and> \<not> time_reads hw ! k - start < timeout)) \<Longrightarrow>
   \<exists>n hw1. wait_while_busy chan start timeout n0 hw = Some (n, hw1) \<and> n \<le> n0 + k"
proof (induction k arbitrary: hw n0)
  case 0
  then show ?case
    by (cases "dma_busy_reads hw"; cases "time_reads hw")
       (auto simp: wait_while_busy.simps [of _ _ _ _ hw] dma_channel_is_busy_def time_us_32_def)
next
  case (Suc k)
  from Suc.prems obtain b bs t ts where bs: "dma_busy_reads hw = b # bs" and ts: "time_reads hw = t # ts"
    by (cases "dma_busy_reads hw"; cases "time_reads hw") auto
  let ?hw2 = "hw\<lparr>dma_busy_reads := bs, time_reads := ts\<rparr>"
  show ?case
  proof (cases "b \<and> t - start < timeout")
    case False
    then show ?thesis using bs ts
      by (auto simp: wait_while_busy.simps [of _ _ _ _ hw] dma_channel_is_busy_def time_us_32_def)
  next
    case True
    have "\<exists>n hw1. wait_while_busy chan start timeout (Suc n0) ?hw2 = Some (n, hw1) \<and> n \<le> Suc n0 + k"
      using Suc.prems bs ts by (intro Suc.IH) auto
    then show ?thesis using True bs ts
      by (auto simp: wait_while_busy.simps [of _ _ _ _ hw] dma_channel_is_busy_def time_us_32_def)
  qed
qed

lemma loop_test_spec:
  "now - start < get_start_pulse_duration_us m + DHT_MEASUREMENT_TIMEOUT_US
     \<longleftrightarrow> spec_elapsed_us now start < spec_timeout_us m"
proof -
  have "now - start < get_start_pulse_duration_us m + DHT_MEASUREMENT_TIMEOUT_US
     \<longleftrightarrow> unat (now - start) < unat (get_start_pulse_duration_us m + DHT_MEASUREMENT_TIMEOUT_US)"
    by (rule word_less_nat_alt)
  also have "unat (now - start) = spec_elapsed_us now start"
    unfolding spec_elapsed_us_def elapsed_mod [symmetric] by simp
  also have "unat (get_start_pulse_duration_us m + DHT_MEASUREMENT_TIMEOUT_US) = spec_timeout_us m"
    unfolding timeout_value spec_timeout_us_def ..
  finally show ?thesis .
qed

lemma finish_after_wait:
  assumes "pio dht = Some p" "pio_sm_is_enabled p (sm dht) hw"
    and "wait_while_busy (dma_chan dht) (start_time dht)
           (get_start_pulse_duration_us (model dht) + DHT_MEASUREMENT_TIMEOUT_US) 0 hw = Some (n, hw1)"
    and "dma_busy_reads hw1 = b # bs"
  shows "\<exists>out. dht_finish_measurement_blocking dht h t hw mem = Some out \<and>
           dma_busy_reads (hw_after out) = bs \<and>
           time_reads (hw_after out) = time_reads hw1 \<and>
           calls (hw_after out) = calls hw1 @ [Pio_sm_exec p (sm dht) (Set_pindirs 0)] @
              (if b then [Dma_channel_abort (dma_chan dht)] else []) \<and>
           (returned (Some out) = Some DHT_RESULT_TIMEOUT \<longleftrightarrow> b)"
  using assms
  by (auto simp: dht_finish_measurement_blocking_def returned_def hw_after_def Let_def
        dma_channel_is_busy_def pio_sm_set_enabled_def hw_do_def
        split: option.splits sum.splits list.splits)

text \<open>
  C5. Let the instance be initialised and a measurement be in progress, and let test \<open>k\<close> be
  the first loop test at which the channel is idle or the elapsed time, the difference of
  the tick and the recorded start modulo \<open>2\<^sup>3\<^sup>2\<close>, has reached the timeout, the start-pulse
  duration of the model plus 6000 microseconds. Then \<^verbatim>\<open>dht_finish_measurement_blocking\<close>
  ends having waited exactly through the \<open>k\<close> tests before it: of the environment's readings
  it has taken the \<open>k + 1\<close> busy flags of the loop and the one after it, and the timer
  readings of the tests at which the channel was busy, no more and no fewer; while waiting
  it has made no SDK call; and its result is the timeout result exactly when the flag read
  after the loop is set. The start-pulse duration is 1000 microseconds for DHT21 and DHT22
  and 18000 for DHT11 and DHT12. For every pair of 32-bit tick values the loop test holds
  exactly when the difference modulo \<open>2\<^sup>3\<^sup>2\<close> is below the timeout, and a tick taken \<open>d\<close>
  microseconds after the start, \<open>d < 2\<^sup>3\<^sup>2\<close>, has elapsed time \<open>d\<close>, also when the counter
  has wrapped in between.
\<close>

theorem finish_wait_bound:
  assumes "pio dht = Some p" and "pio_sm_is_enabled p (sm dht) hw"
    and "Suc k < length (dma_busy_reads hw)" and "k < length (time_reads hw)"
    and "\<forall>i<k. dma_busy_reads hw ! i \<and>
           spec_elapsed_us (time_reads hw ! i) (start_time dht) < spec_timeout_us (model dht)"
    and "\<not> dma_busy_reads hw ! k \<or>
         spec_timeout_us (model dht) \<le> spec_elapsed_us (time_reads hw ! k) (start_time dht)"
  shows "(\<exists>out. dht_finish_measurement_blocking dht h t hw mem = Some out \<and>
      dma_busy_reads (hw_after out) = drop (k + 2) (dma_busy_reads hw) \<and>
      time_reads (hw_after out) =
        drop (if dma_busy_reads hw ! k then Suc k else k) (time_reads hw) \<and>
      calls (hw_after out) = calls hw @ [Pio_sm_exec p (sm dht) (Set_pindirs 0)] @
        (if dma_busy_reads hw ! Suc k then [Dma_channel_abort (dma_chan dht)] else []) \<and>
      (returned (Some out) = Some DHT_RESULT_TIMEOUT \<longleftrightarrow> dma_busy_reads hw ! Suc k)) \<and>
   (\<exists>hw1. wait_while_busy (dma_chan dht) (start_time dht)
       (get_start_pulse_duration_us (model dht) + DHT_MEASUREMENT_TIMEOUT_US) 0 hw = Some (k, hw1)) \<and>
   (\<forall>m. unat (get_start_pulse_duration_us m) = (if m = DHT21 \<or> m = DHT22 then 1000 else 18000) \<and>
        unat (get_start_pulse_duration_us m + DHT_MEASUREMENT_TIMEOUT_US) =
          unat (get_start_pulse_duration_us m) + 6000 \<and>
        spec_timeout_us m = unat (get_start_pulse_duration_us m) + 6000) \<and>
   get_start_pulse_duration_us DHT11 = 18000 \<and> get_start_pulse_duration_us DHT12 = 18000 \<and>
   get_start_pulse_duration_us DHT21 = 1000 \<and> get_start_pulse_duration_us DHT22 = 1000 \<and>
   (\<forall>now start m. (now - start < get_start_pulse_duration_us m + DHT_MEASUREMENT_TIMEOUT_US) =
        ((int (unat now) - int (unat start)) mod 2 ^ 32
           < int (unat (get_start_pulse_duration_us m)) + 6000)) \<and>
   (\<forall>now start. int (spec_elapsed_us now start) = (int (unat now) - int (unat start)) mod 2 ^ 32) \<and>
   (\<forall>start d. d < 2 ^ 32 \<longrightarrow> spec_elapsed_us (start + word_of_nat d) start = d)"
proof -
  let ?timeout = "get_start_pulse_duration_us (model dht) + DHT_MEASUREMENT_TIMEOUT_US"
  let ?bs = "dma_busy_reads hw" and ?ts = "time_reads hw"
  from assms(3,4,6) obtain n hw1
    where w: "wait_while_busy (dma_chan dht) (start_time dht) ?timeout 0 hw = Some (n, hw1)"
      and nk: "n \<le> k"
    using wait_total [of k hw "start_time dht" ?timeout "dma_chan dht" 0]
    by (auto simp: loop_test_spec)
  note s = wait_sound [OF w]
  have n: "n = k"
  proof (rule ccontr)
    assume "n \<noteq> k"
    with nk have "n < k" by simp
    with assms(5) have "?bs ! n" "?ts ! n - start_time dht < ?timeout"
      by (simp_all add: loop_test_spec)
    with s show False by simp
  qed
  from wait_result [OF w] have hw1: "hw1 = hw\<lparr>dma_busy_reads := drop (Suc k) ?bs,
      time_reads := drop (if ?bs ! k then Suc k else k) ?ts\<rparr>"
    by (simp add: n)
  have d: "drop (Suc k) ?bs = ?bs ! Suc k # drop (k + 2) ?bs"
    using assms(3) by (simp add: Cons_nth_drop_Suc)
  have b1: "dma_busy_reads hw1 = ?bs ! Suc k # drop (k + 2) ?bs"
    unfolding hw1 using d by simp
  from finish_after_wait [OF assms(1,2) w b1, of h t mem]
  have 1: "\<exists>out. dht_finish_measurement_blocking dht h t hw mem = Some out \<and>
      dma_busy_reads (hw_after out) = drop (k + 2) ?bs \<and>
      time_reads (hw_after out) = drop (if ?bs ! k then Suc k else k) ?ts \<and>
      calls (hw_after out) = calls hw @ [Pio_sm_exec p (sm dht) (Set_pindirs 0)] @
        (if ?bs ! Suc k then [Dma_channel_abort (dma_chan dht)] else []) \<and>
      (returned (Some out) = Some DHT_RESULT_TIMEOUT \<longleftrightarrow> ?bs ! Suc k)"
    unfolding hw1 by simp
  from w n have 2: "\<exists>hw1. wait_while_busy (dma_chan dht) (start_time dht) ?timeout 0 hw = Some (k, hw1)"
    by blast
  have pulse: "unat (get_start_pulse_duration_us m) = (if m = DHT21 \<or> m = DHT22 then 1000 else 18000)" for m
    by (simp add: get_start_pulse_duration_us_def)
  have tmo: "unat (get_start_pulse_duration_us m + DHT_MEASUREMENT_TIMEOUT_US) =
          unat (get_start_pulse_duration_us m) + 6000" for m
    unfolding timeout_value pulse ..
  have stmo: "spec_timeout_us m = unat (get_start_pulse_duration_us m) + 6000" for m
    unfolding pulse spec_timeout_us_def ..
  have models: "get_start_pulse_duration_us DHT11 = 18000 \<and> get_start_pulse_duration_us DHT12 = 18000 \<and>
     get_start_pulse_duration_us DHT21 = 1000 \<and> get_start_pulse_duration_us DHT22 = 1000"
    by (simp add: get_start_pulse_duration_us_def DHT11_def DHT12_def DHT21_def DHT22_def)
  have test: "(now - start < get_start_pulse_duration_us m + DHT_MEASUREMENT_TIMEOUT_US) =
        ((int (unat now) - int (unat start)) mod 2 ^ 32
           < int (unat (get_start_pulse_duration_us m)) + 6000)" for now start m
    unfolding word_less_nat_alt tmo elapsed_mod [symmetric] by linarith
  have el: "int (spec_elapsed_us now start) = (int (unat now) - int (unat start)) mod 2 ^ 32" for now start
    by (simp add: spec_elapsed_us_def)
  have wrap: "spec_elapsed_us (start + word_of_nat d) start = d" if "d < 2 ^ 32" for start d
    using elapsed_wrap [OF that, of start] elapsed_mod [of "start + word_of_nat d" start]
    by (simp add: spec_elapsed_us_def)
  from 1 2 pulse tmo stmo models test el wrap show ?thesis by blast
qed

theorem finish_wait_bound_witness:
  "pio wrap_dht = Some pio0 \<and>
   pio_sm_is_enabled pio0 (sm wrap_dht) (sample_hw [True, True, False] [50, 6900]) \<and>
   spec_elapsed_us 50 (start_time wrap_dht) = 150 \<and>
   spec_elapsed_us 6900 (start_time wrap_dht) = 7000 \<and>
   spec_timeout_us (model wrap_dht) = 7000 \<and>
   (\<exists>out. dht_finish_measurement_blocking wrap_dht None None
       (sample_hw [True, True, False] [50, 6900]) (\<lambda>a. 0) = Some out \<and>
     dma_busy_reads (hw_after out) = [] \<and> time_reads (hw_after out) = [] \<and>
     returned (Some out) \<noteq> Some DHT_RESULT_TIMEOUT)"
proof -
  let ?hw = "sample_hw [True, True, False] [50, 6900]"
  have p: "pio wrap_dht = Some pio0"
    by (simp add: wrap_dht_def sample_dht_def)
  have en: "pio_sm_is_enabled pio0 (sm wrap_dht) ?hw"
    using sample_enabled by (simp add: wrap_dht_def)
  have l1: "Suc 1 < length (dma_busy_reads ?hw)" and l2: "1 < length (time_reads ?hw)"
    by (simp_all add: sample_hw_def)
  have e0: "spec_elapsed_us 50 (start_time wrap_dht) = 150"
    and e1: "spec_elapsed_us 6900 (start_time wrap_dht) = 7000"
    and tm: "spec_timeout_us (model wrap_dht) = 7000"
    by (simp_all add: wrap_dht_def sample_dht_def spec_elapsed_us_def spec_timeout_us_def DHT22_def)
  have a: "\<forall>i<1. dma_busy_reads ?hw ! i \<and>
      spec_elapsed_us (time_reads ?hw ! i) (start_time wrap_dht) < spec_timeout_us (model wrap_dht)"
    using e0 tm by (simp add: sample_hw_def)
  have e: "\<not> dma_busy_reads ?hw ! 1 \<or>
     spec_timeout_us (model wrap_dht) \<le> spec_elapsed_us (time_reads ?hw ! 1) (start_time wrap_dht)"
    using e1 tm by (simp add: sample_hw_def)
  from finish_wait_bound [OF p en l1 l2 a e, of None None "\<lambda>a. 0"]
  obtain out where o: "dht_finish_measurement_blocking wrap_dht None None ?hw (\<lambda>a. 0) = Some out"
    and b: "dma_busy_reads (hw_after out) = drop (1 + 2) (dma_busy_reads ?hw)"
    and t: "time_reads (hw_after out) = drop (if dma_busy_reads ?hw ! 1 then Suc 1 else 1) (time_reads ?hw)"
    and r: "returned (Some out) = Some DHT_RESULT_TIMEOUT \<longleftrightarrow> dma_busy_reads ?hw ! Suc 1"
    by blast
  from b have b': "dma_busy_reads (hw_after out) = []" by (simp add: sample_hw_def)
  from t have t': "time_reads (hw_after out) = []" by (simp add: sample_hw_def)
  from r have r': "returned (Some out) \<noteq> Some DHT_RESULT_TIMEOUT" by (simp add: sample_hw_def)
  from p en e0 e1 tm o b' t' r' show ?thesis by blast
qed

subsection \<open>Single-precision arithmetic\<close>

text \<open>
  The exponent chosen by \<open>ilog2\<close> is the right one, rounding moves a value by at most
  half a unit in the last place, and integers below \<open>2\<^sup>2\<^sup>4\<close> are represented exactly.
\<close>

lemma pow2_pos: "0 < pow2 k"
  by (simp add: pow2_def)

lemma pow2_powi: "pow2 k = 2 powi k"
  by (simp add: pow2_def power_int_def field_simps)

lemma pow2_add: "pow2 (i + j) = pow2 i * pow2 j"
  by (simp add: pow2_powi power_int_add)

lemma pow2_Suc: "pow2 (k + 1) = 2 * pow2 k"
  by (simp add: pow2_add) (simp add: pow2_def)

lemma pow2_pred: "pow2 (k - 1) = pow2 k / 2"
  using pow2_Suc [of "k - 1"] by simp

lemma pow2_diff: "pow2 (i - j) = pow2 i / pow2 j"
  by (simp add: pow2_powi power_int_diff)

lemma pow2_nat: "pow2 (int n) = 2 ^ n"
  by (simp add: pow2_def)

lemma ilog2_bounds:
  assumes "x \<noteq> 0"
  shows "pow2 (ilog2 x) \<le> \<bar>x\<bar>" and "\<bar>x\<bar> < pow2 (ilog2 x + 1)"
proof -
  obtain a b where ab: "quotient_of \<bar>x\<bar> = (a, b)"
    by (cases "quotient_of \<bar>x\<bar>")
  have b: "0 < b" using quotient_of_denom_pos [OF ab] .
  have x: "\<bar>x\<bar> = of_int a / of_int b"
    using quotient_of_div [OF ab] .
  from assms have "0 < \<bar>x\<bar>" by simp
  with x b have a: "0 < a"
    by (simp add: zero_less_divide_iff)
  define d where "d = bitlen a - bitlen b"
  have la: "1 \<le> bitlen a" and lb: "1 \<le> bitlen b"
    using a b by (simp_all add: bitlen_alt_def)
  have a_lo: "pow2 (bitlen a - 1) \<le> of_int a" and a_hi: "of_int a < pow2 (bitlen a)"
   and b_lo: "pow2 (bitlen b - 1) \<le> of_int b" and b_hi: "of_int b < pow2 (bitlen b)"
  proof -
    have *: "pow2 (bitlen n - 1) \<le> of_int n \<and> of_int n < pow2 (bitlen n)" if "0 < n" for n
    proof -
      from that have l: "1 \<le> bitlen n" by (simp add: bitlen_alt_def)
      have "(of_int (2 ^ nat (bitlen n - 1)) :: rat) \<le> of_int n"
        and "(of_int n :: rat) < of_int (2 ^ nat (bitlen n))"
        using bitlen_bounds [OF that] by (simp_all only: of_int_le_iff of_int_less_iff)
      then show ?thesis using l by (simp add: pow2_def)
    qed
    from * [OF a] * [OF b] show "pow2 (bitlen a - 1) \<le> of_int a" "of_int a < pow2 (bitlen a)"
      "pow2 (bitlen b - 1) \<le> of_int b" "of_int b < pow2 (bitlen b)" by simp_all
  qed
  have bp: "(0::rat) < of_int b" using b by simp
  have hi: "\<bar>x\<bar> < pow2 (d + 1)"
  proof -
    have "of_int a * pow2 (bitlen b - 1) < pow2 (bitlen a) * of_int b"
      using a_hi b_lo pow2_pos [of "bitlen b - 1"] a
      by (intro mult_less_le_imp_less) simp_all
    then have "of_int a / of_int b < pow2 (bitlen a) / pow2 (bitlen b - 1)"
      using bp pow2_pos [of "bitlen b - 1"] by (simp add: field_simps)
    also have "\<dots> = pow2 (d + 1)"
      by (simp add: d_def pow2_diff [symmetric] algebra_simps)
    finally show ?thesis by (simp add: x)
  qed
  have lo: "pow2 (d - 1) < \<bar>x\<bar>"
  proof -
    have "pow2 (bitlen a - 1) * of_int b < of_int a * pow2 (bitlen b)"
      using a_lo b_hi pow2_pos [of "bitlen a - 1"] bp
      by (intro mult_le_less_imp_less) simp_all
    then have "pow2 (bitlen a - 1) / pow2 (bitlen b) < of_int a / of_int b"
      using bp pow2_pos [of "bitlen b"] by (simp add: field_simps)
    moreover have "pow2 (bitlen a - 1) / pow2 (bitlen b) = pow2 (d - 1)"
      by (simp add: d_def pow2_diff [symmetric] algebra_simps)
    ultimately show ?thesis by (simp add: x)
  qed
  have e: "ilog2 x = (if pow2 d \<le> \<bar>x\<bar> then d else d - 1)"
    by (simp add: ilog2_def ab d_def Let_def)
  show "pow2 (ilog2 x) \<le> \<bar>x\<bar>"
    using lo by (simp add: e less_imp_le)
  show "\<bar>x\<bar> < pow2 (ilog2 x + 1)"
    using hi by (simp add: e not_le)
qed

lemma round_half_even_error: "\<bar>of_int (round_half_even m) - m\<bar> \<le> 1 / 2"
proof -
  have "of_int \<lfloor>m\<rfloor> \<le> m" "m < of_int \<lfloor>m\<rfloor> + 1"
    by linarith+
  then show ?thesis
    by (auto simp: round_half_even_def Let_def abs_le_iff)
qed

lemma f32_round_error: "\<bar>f32_round x - x\<bar> \<le> \<bar>x\<bar> / 2 ^ 24"
proof (cases "x = 0")
  case True
  then show ?thesis by (simp add: f32_round_def)
next
  case False
  define q where "q = pow2 (ilog2 x - 23)"
  have q: "0 < q" by (simp add: q_def pow2_pos)
  have "f32_round x - x = (of_int (round_half_even (x / q)) - x / q) * q"
    using False q by (simp add: f32_round_def q_def Let_def field_simps)
  then have "\<bar>f32_round x - x\<bar> = \<bar>of_int (round_half_even (x / q)) - x / q\<bar> * q"
    using q by (simp add: abs_mult)
  also have "\<dots> \<le> 1 / 2 * q"
    using round_half_even_error [of "x / q"] q by (intro mult_right_mono) simp_all
  also have "\<dots> = pow2 (ilog2 x) / 2 ^ 24"
    by (simp add: q_def pow2_diff pow2_nat [of 23, simplified])
  also have "\<dots> \<le> \<bar>x\<bar> / 2 ^ 24"
    using ilog2_bounds(1) [OF False] by (simp add: divide_right_mono)
  finally show ?thesis .
qed

lemma round_half_even_of_int: "round_half_even (of_int k) = k"
  by (simp add: round_half_even_def)

lemma f32_round_0: "f32_round 0 = 0"
  by (simp add: f32_round_def)

lemma ilog2_of_int:
  assumes "0 < n"
  shows "ilog2 (of_int n) = bitlen n - 1"
proof -
  from assms have b: "1 \<le> bitlen n"
    by (simp add: bitlen_alt_def)
  have "(2::int) ^ nat (bitlen n - 1) \<le> n"
    using bitlen_bounds [OF assms] by simp
  then have "(of_int (2 ^ nat (bitlen n - 1)) :: rat) \<le> of_int n"
    by (simp only: of_int_le_iff)
  then have "pow2 (bitlen n - 1) \<le> of_int n"
    using b by (simp add: pow2_def)
  moreover have "bitlen 1 = 1"
    by (simp add: bitlen_alt_def)
  ultimately show ?thesis
    using assms by (simp add: ilog2_def Let_def)
qed

lemma f32_round_of_int_pos:
  assumes "0 < n" "n < 2 ^ 24"
  shows "f32_round (of_int n) = of_int n"
proof -
  from assms have b1: "1 \<le> bitlen n"
    by (simp add: bitlen_alt_def)
  from assms(2) have b2: "bitlen n \<le> 24"
    by (simp add: bitlen_le_iff_power)
  define j where "j = nat (24 - bitlen n)"
  have e: "ilog2 (of_int n) - 23 = - int j"
    using b2 by (simp add: ilog2_of_int [OF assms(1)] j_def)
  have q: "pow2 (- int j) = 1 / 2 ^ j"
    by (simp add: pow2_def)
  have "(of_int n :: rat) / (1 / 2 ^ j) = of_int (n * 2 ^ j)"
    by simp
  then have "round_half_even (of_int n / (1 / 2 ^ j)) = n * 2 ^ j"
    by (simp only: round_half_even_of_int)
  then show ?thesis
    using assms(1) by (simp add: f32_round_def e q Let_def)
qed

lemma f32_of_int_exact:
  assumes "0 \<le> n" "n < 2 ^ 24"
  shows "f32_of_int n = of_int n"
  using assms f32_round_of_int_pos [of n]
  by (cases "n = 0") (simp_all add: f32_of_int_def f32_round_0)

lemma round_half_even_nonneg: "0 \<le> m \<Longrightarrow> 0 \<le> round_half_even m"
  by (auto simp: round_half_even_def Let_def)

lemma f32_round_nonneg: "0 \<le> x \<Longrightarrow> 0 \<le> f32_round x"
  using pow2_pos [of "ilog2 x - 23"]
  by (simp add: f32_round_def Let_def round_half_even_nonneg less_imp_le)

lemma f32_0_1_value: "f32_0_1 = 13421773 / 134217728"
  by code_simp

lemma tenth_error:
  assumes "0 \<le> n"
  shows "\<bar>f32_mul f32_0_1 (of_int n) - of_int n / 10\<bar> \<le> of_int n / 10 ^ 8"
proof -
  let ?x = "f32_0_1 * of_int n"
  have x: "0 \<le> ?x" using assms by (simp add: f32_0_1_value)
  have "\<bar>f32_mul f32_0_1 (of_int n) - of_int n / 10\<bar>
          \<le> \<bar>f32_round ?x - ?x\<bar> + \<bar>?x - of_int n / 10\<bar>"
    unfolding f32_mul_def by linarith
  also have "\<dots> \<le> \<bar>?x\<bar> / 2 ^ 24 + \<bar>?x - of_int n / 10\<bar>"
    using f32_round_error [of ?x] by linarith
  also have "\<dots> \<le> of_int n / 10 ^ 8"
    using assms by (simp add: f32_0_1_value abs_if field_simps)
  finally show ?thesis .
qed

lemma f32_mul_nonneg: "0 \<le> a \<Longrightarrow> 0 \<le> b \<Longrightarrow> 0 \<le> f32_mul a b"
  by (simp add: f32_mul_def f32_round_nonneg)

lemma f32_add_nonneg: "0 \<le> a \<Longrightarrow> 0 \<le> b \<Longrightarrow> 0 \<le> f32_add a b"
  by (simp add: f32_add_def f32_round_nonneg)

lemma byte_plus_tenths_error:
  assumes "0 \<le> a" "a \<le> 255" "0 \<le> b" "b \<le> 255"
  shows "\<bar>f32_add (of_int a) (f32_mul f32_0_1 (of_int b)) - (of_int a + of_int b / 10)\<bar> \<le> 1 / 50000"
proof -
  let ?t = "f32_mul f32_0_1 (of_int b)"
  have t: "\<bar>?t - of_int b / 10\<bar> \<le> of_int b / 10 ^ 8"
    using tenth_error [OF assms(3)] .
  have t0: "0 \<le> ?t"
    using assms(3) by (simp add: f32_mul_nonneg f32_0_1_value)
  have b: "(of_int b :: rat) \<le> 255" "(0::rat) \<le> of_int b"
    using assms(3,4) by simp_all
  have a: "(of_int a :: rat) \<le> 255" "(0::rat) \<le> of_int a"
    using assms(1,2) by simp_all
  from t have "?t \<le> of_int b / 10 + of_int b / 10 ^ 8" by linarith
  also have "\<dots> \<le> 26" using b by simp
  finally have t1: "?t \<le> 26" .
  have "\<bar>f32_add (of_int a) ?t - (of_int a + ?t)\<bar> \<le> \<bar>of_int a + ?t\<bar> / 2 ^ 24"
    unfolding f32_add_def by (rule f32_round_error)
  also have "\<dots> \<le> 281 / 2 ^ 24"
    using a t0 t1 by (simp add: abs_if divide_right_mono)
  finally have s: "\<bar>f32_add (of_int a) ?t - (of_int a + ?t)\<bar> \<le> 281 / 2 ^ 24" .
  have "(of_int b :: rat) / 10 ^ 8 \<le> 255 / 10 ^ 8"
    using b by simp
  with t have t2: "\<bar>?t - of_int b / 10\<bar> \<le> 255 / 10 ^ 8" by linarith
  have "\<bar>f32_add (of_int a) ?t - (of_int a + of_int b / 10)\<bar>
          \<le> \<bar>f32_add (of_int a) ?t - (of_int a + ?t)\<bar> + \<bar>?t - of_int b / 10\<bar>"
    by linarith
  also have "\<dots> \<le> 281 / 2 ^ 24 + 255 / 10 ^ 8"
    using s t2 by linarith
  also have "\<dots> \<le> 1 / 50000" by simp
  finally show ?thesis .
qed

lemma and_80_bit7: "(b AND 0x80 \<noteq> 0) = bit b 7" for b :: "8 word"
  by (simp add: bit_iff_and_push_bit_not_eq_0)

lemma uint_and_7F: "0 \<le> uint (b AND 0x7F) \<and> uint (b AND 0x7F) \<le> 127" for b :: "8 word"
proof -
  have "b AND 0x7F \<le> 0x7F" by (rule word_and_le1)
  then show ?thesis by (simp add: word_le_def)
qed

lemma uint_byte: "0 \<le> uint b \<and> uint b \<le> 255" for b :: "8 word"
  using uint_lt2p [of b] by simp

lemma byte_pair_bound:
  "0 \<le> push_bit 8 (uint hi) + uint lo \<and> push_bit 8 (uint hi) + uint lo \<le> 65535" for hi lo :: "8 word"
  using uint_byte [of hi] uint_byte [of lo] by (simp add: push_bit_eq_mult)

lemma models_distinct:
  "DHT11 \<noteq> DHT12" "DHT11 \<noteq> DHT21" "DHT11 \<noteq> DHT22" "DHT12 \<noteq> DHT21" "DHT12 \<noteq> DHT22" "DHT21 \<noteq> DHT22"
  "DHT12 \<noteq> DHT11" "DHT21 \<noteq> DHT11" "DHT22 \<noteq> DHT11" "DHT21 \<noteq> DHT12" "DHT22 \<noteq> DHT12" "DHT22 \<noteq> DHT21"
  by (simp_all add: DHT11_def DHT12_def DHT21_def DHT22_def)

subsection \<open>Decoding\<close>

text \<open>
  In the statements below \<open>f32_mul\<close> and \<open>f32_add\<close> are the single-precision product and
  sum, \<open>f32_0_1\<close> is the constant \<^verbatim>\<open>0.1f\<close>, and the integers computed from the bytes are
  exact in single precision. Each statement also bounds the distance of the decoded value
  from the exact decimal value of the formula.
\<close>

lemma decode_temperature_cd:
  assumes "m = DHT21 \<or> m = DHT22"
  shows "decode_temperature m hi lo =
     Inr (if bit hi 7 then - f32_mul f32_0_1 (of_int (push_bit 8 (uint (hi AND 0x7F)) + uint lo))
          else f32_mul f32_0_1 (of_int (push_bit 8 (uint (hi AND 0x7F)) + uint lo)))"
proof -
  have "0 \<le> push_bit 8 (uint (hi AND 0x7F)) + uint lo" "push_bit 8 (uint (hi AND 0x7F)) + uint lo < 2 ^ 24"
    using uint_and_7F [of hi] uint_byte [of lo] by (simp_all add: push_bit_eq_mult)
  then have "f32_of_int (push_bit 8 (uint (hi AND 0x7F)) + uint lo) =
      of_int (push_bit 8 (uint (hi AND 0x7F)) + uint lo)"
    by (rule f32_of_int_exact)
  then show ?thesis
    using assms
    by (auto simp: decode_temperature_def models_distinct and_80_bit7 Let_def f32_neg_def)
qed

text \<open>
  C2. For DHT21 and DHT22 and all bytes \<open>hi\<close>, \<open>lo\<close> the decoded temperature is
  \<open>0.1 * (((hi & 0x7F) << 8) + lo)\<close>, negated when bit 7 of \<open>hi\<close> is set; the product is
  within 0.0005 of the exact tenth. The bytes \<open>0x01, 0x40\<close> decode to 32.0 and
  \<open>0x81, 0x40\<close> to -32.0.
\<close>

theorem decode_temperature_dht21_dht22:
  "decode_temperature DHT21 hi lo =
     Inr (if bit hi 7 then - f32_mul f32_0_1 (of_int (push_bit 8 (uint (hi AND 0x7F)) + uint lo))
          else f32_mul f32_0_1 (of_int (push_bit 8 (uint (hi AND 0x7F)) + uint lo))) \<and>
   decode_temperature DHT22 hi lo = decode_temperature DHT21 hi lo \<and>
   \<bar>f32_mul f32_0_1 (of_int (push_bit 8 (uint (hi AND 0x7F)) + uint lo)) -
      of_int (push_bit 8 (uint (hi AND 0x7F)) + uint lo) / 10\<bar> \<le> 1 / 2000 \<and>
   decode_temperature DHT21 0x01 0x40 = Inr 32 \<and> decode_temperature DHT22 0x01 0x40 = Inr 32 \<and>
   decode_temperature DHT21 0x81 0x40 = Inr (- 32) \<and> decode_temperature DHT22 0x81 0x40 = Inr (- 32)"
proof -
  let ?n = "push_bit 8 (uint (hi AND 0x7F)) + uint lo"
  have n: "0 \<le> ?n" "?n \<le> 32767"
    using uint_and_7F [of hi] uint_byte [of lo] by (simp_all add: push_bit_eq_mult)
  have 1: "decode_temperature DHT21 hi lo =
     Inr (if bit hi 7 then - f32_mul f32_0_1 (of_int ?n) else f32_mul f32_0_1 (of_int ?n))"
    by (rule decode_temperature_cd) simp
  have 2: "decode_temperature DHT22 hi lo = decode_temperature DHT21 hi lo"
    unfolding 1 by (rule decode_temperature_cd) simp
  have "(of_int ?n :: rat) \<le> 32767"
    using n(2) by (metis of_int_le_iff of_int_numeral)
  then have 3: "\<bar>f32_mul f32_0_1 (of_int ?n) - of_int ?n / 10\<bar> \<le> 1 / 2000"
    using tenth_error [OF n(1)] by simp
  have 4: "decode_temperature DHT21 0x01 0x40 = Inr 32" "decode_temperature DHT22 0x01 0x40 = Inr 32"
    "decode_temperature DHT21 0x81 0x40 = Inr (- 32)" "decode_temperature DHT22 0x81 0x40 = Inr (- 32)"
    by code_simp+
  from 1 2 3 4 show ?thesis by blast
qed

lemma decode_byte_tenths:
  "f32_add (f32_of_int (uint hi)) (f32_mul f32_0_1 (f32_of_int (uint lo))) =
     f32_add (of_int (uint hi)) (f32_mul f32_0_1 (of_int (uint lo)))" for hi lo :: "8 word"
proof -
  have "f32_of_int (uint hi) = of_int (uint hi)" "f32_of_int (uint lo) = of_int (uint lo)"
    using uint_byte [of hi] uint_byte [of lo] by (simp_all add: f32_of_int_exact)
  then show ?thesis by simp
qed

lemma byte_tenths_nonneg:
  "0 \<le> f32_add (of_int (uint hi)) (f32_mul f32_0_1 (of_int (uint lo)))" for hi lo :: "8 word"
proof -
  have "(0::rat) \<le> of_int (uint hi)" "(0::rat) \<le> of_int (uint lo)"
    by (rule of_int_nonneg, simp)+
  moreover have "0 \<le> f32_0_1" by (simp add: f32_0_1_value)
  ultimately show ?thesis
    by (intro f32_add_nonneg f32_mul_nonneg)
qed

text \<open>
  C3. For DHT11 and all bytes \<open>hi\<close>, \<open>lo\<close> the decoded temperature is 0.0 when bit 7 of
  \<open>lo\<close> is set and \<open>hi + 0.1 * (lo & 0x7F)\<close> otherwise; it is never negative, and the sum
  is within 0.00002 of the exact decimal value. The bytes \<open>0x19, 0x85\<close> decode to 0.0.
\<close>

theorem decode_temperature_dht11:
  "decode_temperature DHT11 hi lo =
     Inr (if bit lo 7 then 0
          else f32_add (of_int (uint hi)) (f32_mul f32_0_1 (of_int (uint (lo AND 0x7F))))) \<and>
   (\<exists>t. decode_temperature DHT11 hi lo = Inr t \<and> 0 \<le> t) \<and>
   \<bar>f32_add (of_int (uint hi)) (f32_mul f32_0_1 (of_int (uint (lo AND 0x7F)))) -
      (of_int (uint hi) + of_int (uint (lo AND 0x7F)) / 10)\<bar> \<le> 1 / 50000 \<and>
   decode_temperature DHT11 0x19 0x85 = Inr 0"
proof -
  let ?v = "f32_add (of_int (uint hi)) (f32_mul f32_0_1 (of_int (uint (lo AND 0x7F))))"
  have 1: "decode_temperature DHT11 hi lo = Inr (if bit lo 7 then 0 else ?v)"
    by (simp add: decode_temperature_def and_80_bit7 decode_byte_tenths)
  have "0 \<le> ?v" by (rule byte_tenths_nonneg)
  then have 2: "\<exists>t. decode_temperature DHT11 hi lo = Inr t \<and> 0 \<le> t"
    unfolding 1 by simp
  have 3: "\<bar>?v - (of_int (uint hi) + of_int (uint (lo AND 0x7F)) / 10)\<bar> \<le> 1 / 50000"
    using uint_byte [of hi] uint_byte [of "lo AND 0x7F"] by (intro byte_plus_tenths_error) simp_all
  have 4: "decode_temperature DHT11 0x19 0x85 = Inr 0"
    by code_simp
  from 1 2 3 4 show ?thesis by blast
qed

text \<open>
  C6. For DHT12 and all bytes \<open>hi\<close>, \<open>lo\<close> the decoded temperature is
  \<open>hi + 0.1 * (lo & 0x7F)\<close>, negated when bit 7 of \<open>lo\<close> is set; the sum is within 0.00002
  of the exact decimal value. The bytes \<open>0x19, 0x05\<close> decode to 25.5 and \<open>0x19, 0x85\<close> to
  -25.5.
\<close>

theorem decode_temperature_dht12:
  "decode_temperature DHT12 hi lo =
     Inr (if bit lo 7 then - f32_add (of_int (uint hi)) (f32_mul f32_0_1 (of_int (uint (lo AND 0x7F))))
          else f32_add (of_int (uint hi)) (f32_mul f32_0_1 (of_int (uint (lo AND 0x7F))))) \<and>
   \<bar>f32_add (of_int (uint hi)) (f32_mul f32_0_1 (of_int (uint (lo AND 0x7F)))) -
      (of_int (uint hi) + of_int (uint (lo AND 0x7F)) / 10)\<bar> \<le> 1 / 50000 \<and>
   decode_temperature DHT12 0x19 0x05 = Inr (51 / 2) \<and>
   decode_temperature DHT12 0x19 0x85 = Inr (- 51 / 2)"
proof -
  let ?v = "f32_add (of_int (uint hi)) (f32_mul f32_0_1 (of_int (uint (lo AND 0x7F))))"
  have 1: "decode_temperature DHT12 hi lo = Inr (if bit lo 7 then - ?v else ?v)"
    by (simp add: decode_temperature_def models_distinct and_80_bit7 decode_byte_tenths Let_def
        f32_neg_def)
  have 2: "\<bar>?v - (of_int (uint hi) + of_int (uint (lo AND 0x7F)) / 10)\<bar> \<le> 1 / 50000"
    using uint_byte [of hi] uint_byte [of "lo AND 0x7F"] by (intro byte_plus_tenths_error) simp_all
  have 3: "decode_temperature DHT12 0x19 0x05 = Inr (51 / 2)"
    "decode_temperature DHT12 0x19 0x85 = Inr (- 51 / 2)"
    by code_simp+
  from 1 2 3 show ?thesis by blast
qed

text \<open>
  C7. For all bytes \<open>hi\<close>, \<open>lo\<close> the decoded humidity is \<open>hi + 0.1 * lo\<close> for DHT11 and
  DHT12 and \<open>0.1 * ((hi << 8) + lo)\<close> for DHT21 and DHT22. No sign is applied: both values
  are nonnegative for every pair of bytes. They are within 0.00002 and 0.001 of the exact
  decimal values. The bytes \<open>60, 5\<close> decode to 60.5 for DHT11 and DHT12, and
  \<open>0x02, 0x58\<close> to 60.0 for DHT21 and DHT22.
\<close>

theorem decode_humidity_models:
  "decode_humidity DHT11 hi lo = Inr (f32_add (of_int (uint hi)) (f32_mul f32_0_1 (of_int (uint lo)))) \<and>
   decode_humidity DHT12 hi lo = decode_humidity DHT11 hi lo \<and>
   decode_humidity DHT21 hi lo = Inr (f32_mul f32_0_1 (of_int (push_bit 8 (uint hi) + uint lo))) \<and>
   decode_humidity DHT22 hi lo = decode_humidity DHT21 hi lo \<and>
   0 \<le> f32_add (of_int (uint hi)) (f32_mul f32_0_1 (of_int (uint lo))) \<and>
   0 \<le> f32_mul f32_0_1 (of_int (push_bit 8 (uint hi) + uint lo)) \<and>
   \<bar>f32_add (of_int (uint hi)) (f32_mul f32_0_1 (of_int (uint lo))) -
      (of_int (uint hi) + of_int (uint lo) / 10)\<bar> \<le> 1 / 50000 \<and>
   \<bar>f32_mul f32_0_1 (of_int (push_bit 8 (uint hi) + uint lo)) -
      of_int (push_bit 8 (uint hi) + uint lo) / 10\<bar> \<le> 1 / 1000 \<and>
   decode_humidity DHT11 60 5 = Inr (121 / 2) \<and> decode_humidity DHT12 60 5 = Inr (121 / 2) \<and>
   decode_humidity DHT21 0x02 0x58 = Inr 60 \<and> decode_humidity DHT22 0x02 0x58 = Inr 60"
proof -
  let ?ab = "f32_add (of_int (uint hi)) (f32_mul f32_0_1 (of_int (uint lo)))"
  let ?n = "push_bit 8 (uint hi) + uint lo"
  let ?cd = "f32_mul f32_0_1 (of_int ?n)"
  note n = byte_pair_bound [of hi lo]
  have ab: "decode_humidity m hi lo = Inr ?ab" if "m = DHT11 \<or> m = DHT12" for m
    using that by (auto simp: decode_humidity_def decode_byte_tenths)
  have "f32_of_int ?n = of_int ?n"
    using n by (intro f32_of_int_exact) simp_all
  then have cd: "decode_humidity m hi lo = Inr ?cd" if "m = DHT21 \<or> m = DHT22" for m
    using that by (auto simp: decode_humidity_def models_distinct)
  have 1: "decode_humidity DHT11 hi lo = Inr ?ab" "decode_humidity DHT12 hi lo = decode_humidity DHT11 hi lo"
    "decode_humidity DHT21 hi lo = Inr ?cd" "decode_humidity DHT22 hi lo = decode_humidity DHT21 hi lo"
    by (simp_all add: ab cd)
  have 2: "0 \<le> ?ab" by (rule byte_tenths_nonneg)
  have "(0::rat) \<le> of_int ?n"
    using n by (intro of_int_nonneg) simp
  moreover have "0 \<le> f32_0_1" by (simp add: f32_0_1_value)
  ultimately have 3: "0 \<le> ?cd"
    by (intro f32_mul_nonneg)
  have 4: "\<bar>?ab - (of_int (uint hi) + of_int (uint lo) / 10)\<bar> \<le> 1 / 50000"
    using uint_byte [of hi] uint_byte [of lo] by (intro byte_plus_tenths_error) simp_all
  have "(of_int ?n :: rat) \<le> 65535"
    using n by (metis of_int_le_iff of_int_numeral)
  moreover have "\<bar>?cd - of_int ?n / 10\<bar> \<le> of_int ?n / 10 ^ 8"
    using n by (intro tenth_error) simp
  ultimately have 5: "\<bar>?cd - of_int ?n / 10\<bar> \<le> 1 / 1000"
    by simp
  have 6: "decode_humidity DHT11 60 5 = Inr (121 / 2)" "decode_humidity DHT12 60 5 = Inr (121 / 2)"
    "decode_humidity DHT21 0x02 0x58 = Inr 60" "decode_humidity DHT22 0x02 0x58 = Inr 60"
    by code_simp+
  from 1 2 3 4 5 6 show ?thesis by blast
qed

subsection \<open>Fahrenheit\<close>

lemma f32_nine_fifths: "f32_div 9 (f32_of_int 5) = f32_round (9 / 5)"
  by code_simp

lemma f32_nine_fifths_value: "f32_round (9 / 5) = 7549747 / 4194304"
  by code_simp

lemma f32_of_int_32: "f32_of_int 32 = 32"
  by code_simp

text \<open>
  C8. \<^verbatim>\<open>celsius_to_fahrenheit\<close> maps every Celsius value \<open>c\<close> to \<open>c * (9 / 5) + 32\<close>
  computed in single precision. Where no overflow can occur (\<open>\<bar>c\<bar> \<le> 2\<^sup>1\<^sup>0\<^sup>0\<close>) the result is
  within \<open>(7 * \<bar>c\<bar> + 32) / 2\<^sup>2\<^sup>4\<close> of the exact value of \<open>c * 9 / 5 + 32\<close>. It maps 0 to
  32.0, 100 to 212.0 and -40 to -40.0.
\<close>

theorem celsius_to_fahrenheit_formula:
  "celsius_to_fahrenheit c = f32_add (f32_mul c (f32_round (9 / 5))) 32 \<and>
   (\<bar>c\<bar> \<le> 2 ^ 100 \<longrightarrow>
      \<bar>celsius_to_fahrenheit c - (c * 9 / 5 + 32)\<bar> \<le> (7 * \<bar>c\<bar> + 32) / 2 ^ 24) \<and>
   celsius_to_fahrenheit 0 = 32 \<and> celsius_to_fahrenheit 100 = 212 \<and>
   celsius_to_fahrenheit (- 40) = - 40"
proof -
  let ?k = "7549747 / 4194304 :: rat"
  note k = f32_nine_fifths_value
  have 1: "celsius_to_fahrenheit c = f32_add (f32_mul c (f32_round (9 / 5))) 32"
    by (simp only: celsius_to_fahrenheit_def f32_nine_fifths f32_of_int_32)
  let ?p = "f32_mul c ?k"
  have p: "\<bar>?p - c * ?k\<bar> \<le> \<bar>c * ?k\<bar> / 2 ^ 24"
    unfolding f32_mul_def by (rule f32_round_error)
  have ck: "\<bar>c * ?k\<bar> \<le> 2 * \<bar>c\<bar>"
    by (simp add: abs_mult)
  have ckd: "\<bar>c * ?k - c * 9 / 5\<bar> \<le> \<bar>c\<bar> / 2 ^ 24"
  proof -
    have "c * ?k - c * 9 / 5 = c * (- 1 / 20971520)" by simp
    then have "\<bar>c * ?k - c * 9 / 5\<bar> = \<bar>c\<bar> / 20971520" by (simp add: abs_mult)
    also have "\<dots> \<le> \<bar>c\<bar> / 2 ^ 24" by simp
    finally show ?thesis .
  qed
  from p ck have p1: "\<bar>?p - c * ?k\<bar> \<le> 2 * \<bar>c\<bar> / 2 ^ 24"
    by (simp add: divide_right_mono order_trans [OF p])
  have "2 * \<bar>c\<bar> / 2 ^ 24 \<le> \<bar>c\<bar>" by simp
  with p1 have "\<bar>?p - c * ?k\<bar> \<le> \<bar>c\<bar>" by linarith
  with ck have pa: "\<bar>?p\<bar> \<le> 3 * \<bar>c\<bar>" by linarith
  have "\<bar>f32_add ?p 32 - (?p + 32)\<bar> \<le> \<bar>?p + 32\<bar> / 2 ^ 24"
    unfolding f32_add_def by (rule f32_round_error)
  also have "\<dots> \<le> (3 * \<bar>c\<bar> + 32) / 2 ^ 24"
  proof (rule divide_right_mono)
    show "\<bar>?p + 32\<bar> \<le> 3 * \<bar>c\<bar> + 32" using pa by linarith
    show "(0::rat) \<le> 2 ^ 24" by simp
  qed
  finally have s: "\<bar>f32_add ?p 32 - (?p + 32)\<bar> \<le> (3 * \<bar>c\<bar> + 32) / 2 ^ 24" .
  have "\<bar>f32_add ?p 32 - (c * 9 / 5 + 32)\<bar>
      \<le> \<bar>f32_add ?p 32 - (?p + 32)\<bar> + \<bar>?p - c * ?k\<bar> + \<bar>c * ?k - c * 9 / 5\<bar>"
    by linarith
  also have "\<dots> \<le> (3 * \<bar>c\<bar> + 32) / 2 ^ 24 + 2 * \<bar>c\<bar> / 2 ^ 24 + \<bar>c\<bar> / 2 ^ 24"
    using s p1 ckd by linarith
  also have "\<dots> \<le> (7 * \<bar>c\<bar> + 32) / 2 ^ 24"
    by simp
  finally have 2: "\<bar>celsius_to_fahrenheit c - (c * 9 / 5 + 32)\<bar> \<le> (7 * \<bar>c\<bar> + 32) / 2 ^ 24"
    unfolding 1 k .
  have 3: "celsius_to_fahrenheit 0 = 32" "celsius_to_fahrenheit 100 = 212"
    "celsius_to_fahrenheit (- 40) = - 40"
    by code_simp+
  from 1 2 3 show ?thesis by blast
qed

theorem celsius_to_fahrenheit_formula_witness:
  "\<bar>37 :: rat\<bar> \<le> 2 ^ 100 \<and>
   \<bar>celsius_to_fahrenheit 37 - (37 * 9 / 5 + 32)\<bar> \<le> (7 * \<bar>37\<bar> + 32) / 2 ^ 24"
proof -
  have r: "\<bar>37 :: rat\<bar> \<le> 2 ^ 100" by simp
  with celsius_to_fahrenheit_formula [of 37] show ?thesis by blast
qed

subsection \<open>The all-zero buffer\<close>

lemma decode_zero:
  assumes "m = DHT11 \<or> m = DHT12 \<or> m = DHT21 \<or> m = DHT22"
  shows "decode_humidity m 0 0 = Inr 0" and "decode_temperature m 0 0 = Inr 0"
  using assms
  by (auto simp: decode_humidity_def decode_temperature_def models_distinct Let_def
        f32_add_def f32_mul_def f32_of_int_def f32_round_0)

text \<open>
  C10. Let the instance be initialised with one of the four models, a measurement be in
  progress and the DMA transfer have completed, leaving five zero bytes in the buffer. Then
  \<^verbatim>\<open>dht_finish_measurement_blocking\<close> returns \<^verbatim>\<open>DHT_RESULT_OK\<close>, whichever output
  parameters are requested, and writes humidity 0.0 and temperature 0.0: the all-zero
  buffer passes the checksum and decodes to 0.0 and 0.0 for every model.
\<close>

theorem finish_all_zero:
  assumes "model dht = DHT11 \<or> model dht = DHT12 \<or> model dht = DHT21 \<or> model dht = DHT22"
    and "data dht = [0, 0, 0, 0, 0]"
    and "pio dht = Some p" and "pio_sm_is_enabled p (sm dht) hw"
    and "wait_while_busy (dma_chan dht) (start_time dht)
           (get_start_pulse_duration_us (model dht) + DHT_MEASUREMENT_TIMEOUT_US) 0 hw = Some (n, hw1)"
    and "dma_busy_reads hw1 = False # bs"
  shows "(\<exists>hw'. dht_finish_measurement_blocking dht (Some a) (Some b) hw mem =
            Some (Inr (DHT_RESULT_OK, hw', mem(a := 0, b := 0)))) \<and>
         (\<forall>h t. returned (dht_finish_measurement_blocking dht h t hw mem) = Some DHT_RESULT_OK) \<and>
         decode_humidity (model dht) 0 0 = Inr 0 \<and> decode_temperature (model dht) 0 0 = Inr 0"
proof -
  note z = decode_zero [OF assms(1)]
  have 1: "\<exists>hw'. dht_finish_measurement_blocking dht (Some a) (Some b) hw mem =
            Some (Inr (DHT_RESULT_OK, hw', mem(a := 0, b := 0)))"
    using assms(2-6) z
    by (simp add: dht_finish_measurement_blocking_def Let_def dma_channel_is_busy_def
        pio_sm_set_enabled_def hw_do_def)
  have 2: "returned (dht_finish_measurement_blocking dht h t hw mem) = Some DHT_RESULT_OK" for h t
    using assms(2-6) z
    by (cases h; cases t)
       (simp_all add: dht_finish_measurement_blocking_def Let_def dma_channel_is_busy_def
        pio_sm_set_enabled_def hw_do_def returned_def)
  from 1 2 z show ?thesis by blast
qed

theorem finish_all_zero_witness:
  "model (sample_dht\<lparr>data := [0, 0, 0, 0, 0]\<rparr>) = DHT22 \<and>
   pio (sample_dht\<lparr>data := [0, 0, 0, 0, 0]\<rparr>) = Some pio0 \<and>
   pio_sm_is_enabled pio0 (sm (sample_dht\<lparr>data := [0, 0, 0, 0, 0]\<rparr>)) (sample_hw [True, False, False] [200]) \<and>
   (\<exists>hw'. dht_finish_measurement_blocking (sample_dht\<lparr>data := [0, 0, 0, 0, 0]\<rparr>) (Some 0) (Some 1)
            (sample_hw [True, False, False] [200]) (\<lambda>a. 7) =
          Some (Inr (DHT_RESULT_OK, hw', (\<lambda>a. 7)(0 := 0, 1 := 0))))"
proof -
  let ?dht = "sample_dht\<lparr>data := [0, 0, 0, 0, 0]\<rparr>"
  have m: "model ?dht = DHT22" and p: "pio ?dht = Some pio0" and d: "data ?dht = [0, 0, 0, 0, 0]"
    by (simp_all add: sample_dht_def)
  from m have m4: "model ?dht = DHT11 \<or> model ?dht = DHT12 \<or> model ?dht = DHT21 \<or> model ?dht = DHT22"
    by blast
  have e: "pio_sm_is_enabled pio0 (sm ?dht) (sample_hw [True, False, False] [200])"
    using sample_enabled by simp
  have w: "wait_while_busy (dma_chan ?dht) (start_time ?dht)
       (get_start_pulse_duration_us (model ?dht) + DHT_MEASUREMENT_TIMEOUT_US) 0
       (sample_hw [True, False, False] [200]) = Some (1, sample_hw [False] [])"
    using sample_wait sample_timeout by simp
  have b: "dma_busy_reads (sample_hw [False] []) = False # []"
    by (simp add: sample_hw_def)
  from finish_all_zero [OF m4 d p e w b, of 0 1 "\<lambda>a. 7"] m p e show ?thesis
    by blast
qed

end
